theory Spec2Isabelle
  imports Main "HOL-Library.Word" "HOL-Library.Multiset"
begin

unbundle bit_operations_syntax

section \<open>Byte streams and Python values\<close>

text \<open>
  A byte is an 8-bit word. The file object \<^verbatim>\<open>fobj\<close> of the sources is only ever read
  forward, so it is modelled by the list of bytes that are still unread: the cursor is
  the number of bytes already taken from the front.
\<close>

type_synonym byte = "8 word"
type_synonym stream = "byte list"

text \<open>
  Python strings are sequences of Unicode code points; \<^verbatim>\<open>len\<close> counts code points.
  Floats are kept as their IEEE-754 bit patterns (no floating-point arithmetic is done
  by the decoder): a Single is the 32-bit pattern, a Double the 64-bit pattern.
\<close>

type_synonym pystr = "nat list"
type_synonym single = "32 word"
type_synonym double = "64 word"

datatype error =
    StructError
  | TypeError
  | IndexError
  | ValueError
  | UnicodeDecodeError
  | UnicodeEncodeError
  | OverflowError

datatype pyval =
    PNone
  | PInt (the_int: int)
  | PStr (the_str: pystr)
  | PBytes (the_bytes: "byte list")
  | PSingle (the_single: single)
  | PDouble (the_double: double)
  | PBool (the_bool: bool)
  | PIntDouble (the_pair: "int \<times> double")
  | PTiming (the_timing: "double \<times> double \<times> bool")

definition bind :: "error + 'a \<Rightarrow> ('a \<Rightarrow> error + 'b) \<Rightarrow> error + 'b" where
  "bind m k = (case m of Inl e \<Rightarrow> Inl e | Inr a \<Rightarrow> k a)"

text \<open>
  \<^verbatim>\<open>fobj.read(n)\<close>, for a count that is not negative (the sources never pass another
  one). It returns at most \<open>n\<close> bytes, fewer at the end of the file without an error, and
  advances the cursor by the number of bytes returned. A count of \<open>2 ^ 63\<close> or more
  does not fit the C type of the argument on a 64-bit platform, and the call raises
  OverflowError before anything is read.
\<close>

definition read :: "nat \<Rightarrow> stream \<Rightarrow> error + (byte list \<times> stream)" where
  "read n f = (if 0x8000000000000000 \<le> int n then Inl OverflowError else Inr (take n f, drop n f))"

subsection \<open>Library functions of Python used by the codec\<close>

text \<open>\<^verbatim>\<open>int.from_bytes(bs, byteorder="little")\<close>, for a byte string of any length.\<close>

fun from_bytes_little :: "byte list \<Rightarrow> int" where
  "from_bytes_little [] = 0"
| "from_bytes_little (b # bs) = uint b + 256 * from_bytes_little bs"

text \<open>
  \<^verbatim>\<open>struct.unpack("f", bs)[0]\<close> and \<^verbatim>\<open>struct.unpack("d", bs)[0]\<close>: the buffer must have
  exactly the size of the format, otherwise \<^verbatim>\<open>struct.error\<close> is raised. The native
  byte order is taken to be little-endian.
\<close>

definition unpack_f :: "byte list \<Rightarrow> error + single" where
  "unpack_f bs = (if length bs = 4 then Inr (word_of_int (from_bytes_little bs)) else Inl StructError)"

definition unpack_d :: "byte list \<Rightarrow> error + double" where
  "unpack_d bs = (if length bs = 8 then Inr (word_of_int (from_bytes_little bs)) else Inl StructError)"

section \<open>fmt.py: ULEB128\<close>

text \<open>
  \<^verbatim>\<open>parse_uleb128\<close>: the loop carries \<open>result\<close> and \<open>shift\<close>;
  \<^verbatim>\<open>fileobj.read(1)[0]\<close> raises IndexError at the end of the stream.
\<close>

fun parse_uleb128_loop :: "int \<Rightarrow> nat \<Rightarrow> stream \<Rightarrow> error + (int \<times> stream)" where
  "parse_uleb128_loop result shift [] = Inl IndexError"
| "parse_uleb128_loop result shift (b # f) =
     (let byte = uint b;
          result = result OR push_bit shift (byte AND 0x7F)
      in if drop_bit 7 (byte AND 0x80) = 0 then Inr (result, f)
         else parse_uleb128_loop result (shift + 7) f)"

definition parse_uleb128 :: "stream \<Rightarrow> error + (int \<times> stream)" where
  "parse_uleb128 f = parse_uleb128_loop 0 0 f"

text \<open>
  \<^verbatim>\<open>get_uleb128\<close>: on a negative integer the loop never ends (\<^verbatim>\<open>>>\<close> is an arithmetic
  shift), so the loop is a partial function and \<open>None\<close> stands for not returning.
\<close>

partial_function (option) get_uleb128_loop :: "int \<Rightarrow> byte list \<Rightarrow> byte list option" where
  "get_uleb128_loop integer result =
     (let byte = integer AND 0x7F;
          integer = drop_bit 7 integer;
          byte = (if integer \<noteq> 0 then byte OR 0x80 else byte);
          result = result @ [word_of_int byte]
      in if integer \<noteq> 0 then get_uleb128_loop integer result else Some result)"

definition get_uleb128 :: "int \<Rightarrow> byte list option" where
  "get_uleb128 integer = get_uleb128_loop integer []"

declare get_uleb128_loop.simps [code]

section \<open>UTF-8, as done by \<^verbatim>\<open>bytes.decode\<close> and \<^verbatim>\<open>str.encode\<close>\<close>

text \<open>
  The strict UTF-8 codec of Python: shortest-form encodings only, no surrogates, nothing
  above U+10FFFF. A malformed payload raises UnicodeDecodeError; a surrogate code point
  in a string raises UnicodeEncodeError.
\<close>

definition cont :: "nat \<Rightarrow> nat \<Rightarrow> byte \<Rightarrow> bool" where
  "cont lo hi b = (lo \<le> unat b \<and> unat b \<le> hi)"

definition low6 :: "byte \<Rightarrow> nat" where
  "low6 b = unat b mod 64"

fun utf8_decode :: "byte list \<Rightarrow> error + pystr" where
  "utf8_decode [] = Inr []"
| "utf8_decode (b # bs) =
     (let c = unat b in
      if c < 0x80 then bind (utf8_decode bs) (\<lambda>s. Inr (c # s))
      else if 0xC2 \<le> c \<and> c \<le> 0xDF then
        (case bs of
           b1 # r \<Rightarrow>
             if cont 0x80 0xBF b1
             then bind (utf8_decode r) (\<lambda>s. Inr (((c - 0xC0) * 64 + low6 b1) # s))
             else Inl UnicodeDecodeError
         | _ \<Rightarrow> Inl UnicodeDecodeError)
      else if 0xE0 \<le> c \<and> c \<le> 0xEF then
        (case bs of
           b1 # b2 # r \<Rightarrow>
             if cont (if c = 0xE0 then 0xA0 else 0x80) (if c = 0xED then 0x9F else 0xBF) b1
                \<and> cont 0x80 0xBF b2
             then bind (utf8_decode r)
                    (\<lambda>s. Inr (((c - 0xE0) * 4096 + low6 b1 * 64 + low6 b2) # s))
             else Inl UnicodeDecodeError
         | _ \<Rightarrow> Inl UnicodeDecodeError)
      else if 0xF0 \<le> c \<and> c \<le> 0xF4 then
        (case bs of
           b1 # b2 # b3 # r \<Rightarrow>
             if cont (if c = 0xF0 then 0x90 else 0x80) (if c = 0xF4 then 0x8F else 0xBF) b1
                \<and> cont 0x80 0xBF b2 \<and> cont 0x80 0xBF b3
             then bind (utf8_decode r)
                    (\<lambda>s. Inr (((c - 0xF0) * 262144 + low6 b1 * 4096 + low6 b2 * 64 + low6 b3) # s))
             else Inl UnicodeDecodeError
         | _ \<Rightarrow> Inl UnicodeDecodeError)
      else Inl UnicodeDecodeError)"

definition utf8_encode_cp :: "nat \<Rightarrow> error + byte list" where
  "utf8_encode_cp c =
     (if c < 0x80 then Inr [of_nat c]
      else if c < 0x800 then Inr [of_nat (0xC0 + c div 64), of_nat (0x80 + c mod 64)]
      else if c < 0x10000 then
        (if 0xD800 \<le> c \<and> c \<le> 0xDFFF then Inl UnicodeEncodeError
         else Inr [of_nat (0xE0 + c div 4096), of_nat (0x80 + (c div 64) mod 64),
                   of_nat (0x80 + c mod 64)])
      else if c < 0x110000 then
        Inr [of_nat (0xF0 + c div 262144), of_nat (0x80 + (c div 4096) mod 64),
             of_nat (0x80 + (c div 64) mod 64), of_nat (0x80 + c mod 64)]
      else Inl UnicodeEncodeError)"

fun utf8_encode :: "pystr \<Rightarrow> error + byte list" where
  "utf8_encode [] = Inr []"
| "utf8_encode (c # cs) =
     bind (utf8_encode_cp c) (\<lambda>b. bind (utf8_encode cs) (\<lambda>bs. Inr (b @ bs)))"

section \<open>fmt.py: strings\<close>

text \<open>
  \<^verbatim>\<open>parse_string\<close>. \<^verbatim>\<open>ord(indicator)\<close> raises TypeError when the read returned no byte.
  The payload read may return fewer than \<open>uleb\<close> bytes at the end of the stream, and
  raises OverflowError for a length of \<open>2 ^ 63\<close> or more.
\<close>

definition parse_string :: "stream \<Rightarrow> error + (pystr \<times> stream)" where
  "parse_string fileobj =
     bind (read 1 fileobj) (\<lambda>(indicator, fileobj).
      case indicator of
        [b] \<Rightarrow>
          if uint b = 0 then Inr ([], fileobj)
          else if uint b = 11 then
            bind (parse_uleb128 fileobj) (\<lambda>(uleb, fileobj).
              bind (read (nat uleb) fileobj) (\<lambda>(bs, fileobj).
              bind (utf8_decode bs) (\<lambda>s. Inr (s, fileobj))))
          else Inl ValueError
      | _ \<Rightarrow> Inl TypeError)"

text \<open>
  \<^verbatim>\<open>get_string\<close>: the length that is written is \<^verbatim>\<open>len(string)\<close>, the number of code
  points. \<open>None\<close> stands for \<^verbatim>\<open>get_uleb128\<close> not returning.
\<close>

definition get_string :: "pystr \<Rightarrow> (error + byte list) option" where
  "get_string string =
     (if string = [] then Some (Inr [0x00])
      else case get_uleb128 (int (length string)) of
             None \<Rightarrow> None
           | Some u \<Rightarrow> Some (bind (utf8_encode string) (\<lambda>payload. Inr ([0x0B] @ u @ payload))))"

section \<open>fmt.py: \<^verbatim>\<open>read_type\<close> and \<^verbatim>\<open>read_batch\<close>\<close>

definition OSU_BYTE :: nat where "OSU_BYTE = 1"
definition OSU_SHORT :: nat where "OSU_SHORT = 2"
definition OSU_INT :: nat where "OSU_INT = 4"
definition OSU_LONG :: nat where "OSU_LONG = 8"
definition OSU_SINGLE :: nat where "OSU_SINGLE = 4"
definition OSU_DOUBLE :: nat where "OSU_DOUBLE = 8"
definition OSU_BOOLEAN :: nat where "OSU_BOOLEAN = 1"
definition OSU_DATETIME :: nat where "OSU_DATETIME = 8"

lemmas OSU_defs = OSU_BYTE_def OSU_SHORT_def OSU_INT_def OSU_LONG_def OSU_SINGLE_def
  OSU_DOUBLE_def OSU_BOOLEAN_def OSU_DATETIME_def

text \<open>
  \<^verbatim>\<open>read_type\<close>. The \<^verbatim>\<open>except struct.error\<close> clause logs and re-raises, and every other
  exception passes through, so an error of a branch is the error of the call. The last
  branch logs a warning and falls off the end of the function: the call returns None
  and nothing has been read.
\<close>

definition read_type :: "string \<Rightarrow> stream \<Rightarrow> error + (pyval \<times> stream)" where
  "read_type type fobj =
     (if type = ''Int'' then
        bind (read OSU_INT fobj) (\<lambda>(bs, fobj). Inr (PInt (from_bytes_little bs), fobj))
      else if type = ''String'' then
        bind (parse_string fobj) (\<lambda>(s, fobj). Inr (PStr s, fobj))
      else if type = ''Byte'' then
        bind (read OSU_BYTE fobj) (\<lambda>(bs, fobj). Inr (PBytes bs, fobj))
      else if type = ''Short'' then
        bind (read OSU_SHORT fobj) (\<lambda>(bs, fobj). Inr (PInt (from_bytes_little bs), fobj))
      else if type = ''Long'' then
        bind (read OSU_LONG fobj) (\<lambda>(bs, fobj). Inr (PInt (from_bytes_little bs), fobj))
      else if type = ''Single'' then
        bind (read OSU_SINGLE fobj) (\<lambda>(bs, fobj).
        bind (unpack_f bs) (\<lambda>x. Inr (PSingle x, fobj)))
      else if type = ''Double'' then
        bind (read OSU_DOUBLE fobj) (\<lambda>(bs, fobj).
        bind (unpack_d bs) (\<lambda>x. Inr (PDouble x, fobj)))
      else if type = ''Boolean'' then
        bind (read OSU_BOOLEAN fobj) (\<lambda>(bs, fobj). Inr (PBool (bs \<noteq> [0x00]), fobj))
      else if type = ''IntDoublepair'' then
        bind (read OSU_BYTE fobj) (\<lambda>(oxo8, fobj).
        bind (read OSU_INT fobj) (\<lambda>(bs1, fobj).
        let i = from_bytes_little bs1 in
        bind (read OSU_BYTE fobj) (\<lambda>(oxob, fobj).
        bind (read OSU_DOUBLE fobj) (\<lambda>(bs2, fobj).
        bind (unpack_d bs2) (\<lambda>d. Inr (PIntDouble (i, d), fobj))))))
      else if type = ''Timingpoint'' then
        bind (read OSU_DOUBLE fobj) (\<lambda>(bs1, fobj).
        bind (unpack_d bs1) (\<lambda>bpm.
        bind (read OSU_DOUBLE fobj) (\<lambda>(bs2, fobj).
        bind (unpack_d bs2) (\<lambda>offset.
        bind (read OSU_BOOLEAN fobj) (\<lambda>(bs3, fobj).
        let uninherited = (bs3 \<noteq> [0x00])
        in Inr (PTiming (bpm, offset, uninherited), fobj))))))
      else if type = ''DateTime'' then
        bind (read OSU_DATETIME fobj) (\<lambda>(bs, fobj). Inr (PInt (from_bytes_little bs), fobj))
      else Inr (PNone, fobj))"

text \<open>
  The comprehension \<^verbatim>\<open>[read_type(type, f) for type in types]\<close>: the reads happen in
  order on the same file object, and the first exception ends the comprehension.
\<close>

fun read_each :: "string list \<Rightarrow> stream \<Rightarrow> error + (pyval list \<times> stream)" where
  "read_each [] f = Inr ([], f)"
| "read_each (type # types) f =
     bind (read_type type f) (\<lambda>(v, f).
     bind (read_each types f) (\<lambda>(vs, f). Inr (v # vs, f)))"

text \<open>\<^verbatim>\<open>read_batch\<close>: \<^verbatim>\<open>range(cnt)\<close> is empty for a count that is not positive.\<close>

definition read_batch :: "int \<Rightarrow> string \<Rightarrow> stream \<Rightarrow> error + (pyval list \<times> stream)" where
  "read_batch cnt type fobj = read_each (replicate (nat cnt) type) fobj"

section \<open>parser.py: \<^verbatim>\<open>parse_beatmap\<close>\<close>

text \<open>
  \<^verbatim>\<open>parse_beatmap\<close> is one long sequence of reads, cut here at the places where the
  source logs the values read so far. Each part returns the local variables it assigns,
  in the order of the assignments, and the file object.

  First part: the reads from \<open>artist\<close> to \<open>num_spinners\<close>.
\<close>

type_synonym trivial_data =
  "pyval \<times> pyval \<times> pyval \<times> pyval \<times> pyval \<times> pyval \<times> pyval \<times> pyval \<times> pyval \<times> pyval \<times> pyval \<times> pyval \<times> pyval \<times> pyval"

definition parse_beatmap_trivial :: "stream \<Rightarrow> error + (trivial_data \<times> stream)" where
  "parse_beatmap_trivial f =
     bind (read_type ''String'' f) (\<lambda>(artist, f).
     bind (read_type ''String'' f) (\<lambda>(artist_u, f).
     bind (read_type ''String'' f) (\<lambda>(song, f).
     bind (read_type ''String'' f) (\<lambda>(song_u, f).
     bind (read_type ''String'' f) (\<lambda>(creator, f).
     bind (read_type ''String'' f) (\<lambda>(difficulty, f).
     bind (read_type ''String'' f) (\<lambda>(audio_file, f).
     bind (read_type ''String'' f) (\<lambda>(md5, f).
     bind (read_type ''String'' f) (\<lambda>(osu_file, f).
     bind (read_type ''Byte'' f) (\<lambda>(ranked_status, f).
     bind (read_type ''Long'' f) (\<lambda>(last_modified, f).
     bind (read_type ''Short'' f) (\<lambda>(num_hitcircles, f).
     bind (read_type ''Short'' f) (\<lambda>(num_sliders, f).
     bind (read_type ''Short'' f) (\<lambda>(num_spinners, f).
     Inr ((artist, artist_u, song, song_u, creator, difficulty, audio_file, md5, osu_file, ranked_status, last_modified, num_hitcircles, num_sliders, num_spinners), f)))))))))))))))"

text \<open>
  The four difficulty values and the slider velocity. \<open>bm_diff_types\<close> is
  \<^verbatim>\<open>["Single"] * 4\<close>; unpacking a list of another length into four names would raise
  ValueError.
\<close>

definition bm_diff_types :: "string list" where
  "bm_diff_types = replicate 4 ''Single''"

definition parse_beatmap_diff ::
  "stream \<Rightarrow> error + ((pyval \<times> pyval \<times> pyval \<times> pyval \<times> pyval) \<times> stream)" where
  "parse_beatmap_diff f =
     bind (read_each bm_diff_types f) (\<lambda>(vs, f).
     case vs of
       [ar, cs, hp, od] \<Rightarrow>
         bind (read_type ''Double'' f) (\<lambda>(slider_velocity, f).
         Inr ((ar, cs, hp, od, slider_velocity), f))
     | _ \<Rightarrow> Inl ValueError)"

text \<open>The star ratings: the local function \<^verbatim>\<open>read_SR\<close>, called four times.\<close>

definition read_SR :: "stream \<Rightarrow> error + (pyval list \<times> stream)" where
  "read_SR f =
     bind (read_type ''Int'' f) (\<lambda>(num_idp, f).
     read_each (replicate (nat (the_int num_idp)) ''IntDoublepair'') f)"

definition parse_beatmap_stars ::
  "stream \<Rightarrow> error + ((pyval list \<times> pyval list \<times> pyval list \<times> pyval list) \<times> stream)" where
  "parse_beatmap_stars f =
     bind (read_SR f) (\<lambda>(stars_standard, f).
     bind (read_SR f) (\<lambda>(stars_taiko, f).
     bind (read_SR f) (\<lambda>(stars_ctb, f).
     bind (read_SR f) (\<lambda>(stars_mania, f).
     Inr ((stars_standard, stars_taiko, stars_ctb, stars_mania), f)))))"

definition parse_beatmap_times :: "stream \<Rightarrow> error + ((pyval \<times> pyval \<times> pyval) \<times> stream)" where
  "parse_beatmap_times f =
     bind (read_type ''Int'' f) (\<lambda>(drain_time, f).
     bind (read_type ''Int'' f) (\<lambda>(total_time, f).
     bind (read_type ''Int'' f) (\<lambda>(preview_time, f).
     Inr ((drain_time, total_time, preview_time), f))))"

text \<open>The timing points: a count, then that many reads of a Timingpoint.\<close>

definition parse_beatmap_timingpoints :: "stream \<Rightarrow> error + (pyval list \<times> stream)" where
  "parse_beatmap_timingpoints f =
     bind (read_type ''Int'' f) (\<lambda>(num_timingpoints, f).
     read_each (replicate (nat (the_int num_timingpoints)) ''Timingpoint'') f)"

text \<open>
  The reads from \<open>beatmap_id\<close> to \<open>visual_override\<close>. Of these locals only the three
  identifiers are used after the log call, so only they are returned.
\<close>

definition parse_beatmap_more :: "stream \<Rightarrow> error + ((pyval \<times> pyval \<times> pyval) \<times> stream)" where
  "parse_beatmap_more f =
     bind (read_batch 3 ''Int'' f) (\<lambda>(ids, f).
     case ids of
       [beatmap_id, beatmap_set_id, thread_id] \<Rightarrow>
         bind (read_batch 4 ''Byte'' f) (\<lambda>(grades, f).
         case grades of
           [grade_standard, grade_taiko, grade_ctb, grade_mania] \<Rightarrow>
             bind (read_type ''Short'' f) (\<lambda>(local_offset, f).
             bind (read_type ''Single'' f) (\<lambda>(stack_leniency, f).
             bind (read_type ''Byte'' f) (\<lambda>(gameplay_mode, f).
             bind (read_type ''String'' f) (\<lambda>(source, f).
             bind (read_type ''String'' f) (\<lambda>(tags, f).
             bind (read_type ''Short'' f) (\<lambda>(online_offset, f).
             bind (read_type ''String'' f) (\<lambda>(font, f).
             bind (read_type ''Boolean'' f) (\<lambda>(unplayed, f).
             bind (read_type ''Long'' f) (\<lambda>(last_played, f).
             bind (read_type ''Boolean'' f) (\<lambda>(is_osz2, f).
             bind (read_type ''String'' f) (\<lambda>(beatmap_folder, f).
             bind (read_type ''Long'' f) (\<lambda>(last_checked, f).
             bind (read_batch 5 ''Boolean'' f) (\<lambda>(flags, f).
             case flags of
               [ignore_sounds, ignore_skin, disable_storyboard, disable_video, visual_override] \<Rightarrow>
                 Inr ((beatmap_id, beatmap_set_id, thread_id), f)
             | _ \<Rightarrow> Inl ValueError)))))))))))))
         | _ \<Rightarrow> Inl ValueError)
     | _ \<Rightarrow> Inl ValueError)"

section \<open>model.py\<close>

text \<open>
  The classes of the data model. They are declared at this place, after the parts of
  \<^verbatim>\<open>parse_beatmap\<close> that only read, because those parts have local variables named
  like the fields \<open>ar\<close>, \<open>cs\<close>, \<open>hp\<close> and \<open>od\<close>.
\<close>

record Difficulty =
  path :: pystr
  name :: pystr
  artist :: pystr
  mapper :: pystr
  difficulty :: pystr
  ar :: single
  cs :: single
  hp :: single
  od :: single
  hash :: pystr
  api_beatmap_id :: int
  beatmap_id :: int
  beatmapset_id :: int
  timing :: "(double \<times> double \<times> bool) list"

record Song =
  difficulties :: "Difficulty list"

record Songs =
  songs :: "Song list"
  bid_mapping :: "int \<rightharpoonup> Difficulty"

text \<open>\<^verbatim>\<open>Songs()\<close> and \<^verbatim>\<open>Songs.add_song\<close> (the warning for an empty song is only logged).\<close>

definition Songs_init :: Songs where
  "Songs_init = \<lparr>songs = [], bid_mapping = Map.empty\<rparr>"

definition add_song :: "Songs \<Rightarrow> Song \<Rightarrow> Songs" where
  "add_song self song = self\<lparr>songs := songs self @ [song]\<rparr>"

section \<open>parser.py: \<^verbatim>\<open>parse_beatmap\<close>, the whole function\<close>

text \<open>
  The parts in the order of the source, then the two last reads and the construction
  of the record. The function has no parameter for the format version of the header. The
  record is built with \<open>beatmap_id\<close> passed twice, for \<open>api_beatmap_id\<close> and for
  \<open>beatmap_id\<close>.
\<close>

definition parse_beatmap :: "stream \<Rightarrow> error + (Difficulty \<times> stream)" where
  "parse_beatmap f =
     bind (parse_beatmap_trivial f) (\<lambda>((artist, artist_u, song, song_u, creator, difficulty, audio_file,
         md5, osu_file, ranked_status,
         last_modified, num_hitcircles, num_sliders, num_spinners), f).
     bind (parse_beatmap_diff f) (\<lambda>((ar, cs, hp, od, slider_velocity), f).
     bind (parse_beatmap_stars f) (\<lambda>((stars_standard, stars_taiko, stars_ctb, stars_mania), f).
     bind (parse_beatmap_times f) (\<lambda>((drain_time, total_time, preview_time), f).
     bind (parse_beatmap_timingpoints f) (\<lambda>(timingpoints, f).
     bind (parse_beatmap_more f) (\<lambda>((beatmap_id, beatmap_set_id, thread_id), f).
     bind (read_type ''Int'' f) (\<lambda>(unknown_int_modified, f).
     bind (read_type ''Byte'' f) (\<lambda>(mania_scroll_speed, f).
     Inr (\<lparr>path = the_str osu_file,
           name = the_str song,
           artist = the_str artist,
           mapper = the_str creator,
           difficulty = the_str difficulty,
           ar = the_single ar,
           cs = the_single cs,
           hp = the_single hp,
           od = the_single od,
           hash = the_str md5,
           api_beatmap_id = the_int beatmap_id,
           beatmap_id = the_int beatmap_id,
           beatmapset_id = the_int beatmap_set_id,
           timing = map the_timing timingpoints\<rparr>, f)))))))))"

section \<open>parser.py: \<^verbatim>\<open>load_db\<close>\<close>

text \<open>The comprehension \<^verbatim>\<open>[parse_beatmap(fobj) for _ in range(num_maps)]\<close>.\<close>

fun parse_beatmaps :: "nat \<Rightarrow> stream \<Rightarrow> error + (Difficulty list \<times> stream)" where
  "parse_beatmaps 0 f = Inr ([], f)"
| "parse_beatmaps (Suc n) f =
     bind (parse_beatmap f) (\<lambda>(m, f).
     bind (parse_beatmaps n f) (\<lambda>(ms, f). Inr (m # ms, f)))"

text \<open>
  \<open>mapsets\<close> is a dict, which keeps its keys in the order of their first insertion: an
  association list. \<^verbatim>\<open>mapsets.setdefault(k, []).append(m)\<close> appends to the list of an
  existing key and adds a new key at the end.
\<close>

type_synonym mapsets = "(int \<times> Difficulty list) list"

fun setdefault_append :: "mapsets \<Rightarrow> int \<Rightarrow> Difficulty \<Rightarrow> mapsets" where
  "setdefault_append [] k m = [(k, [m])]"
| "setdefault_append ((k', ms) # rest) k m =
     (if k' = k then (k', ms @ [m]) # rest else (k', ms) # setdefault_append rest k m)"

text \<open>The first loop of the assembly, over the decoded beatmaps.\<close>

fun group_beatmaps :: "Difficulty list \<Rightarrow> Songs \<Rightarrow> mapsets \<Rightarrow> Songs \<times> mapsets" where
  "group_beatmaps [] sgs mapsets = (sgs, mapsets)"
| "group_beatmaps (m # beatmaps) sgs mapsets =
     group_beatmaps beatmaps
       (sgs\<lparr>bid_mapping := (bid_mapping sgs)(beatmap_id m \<mapsto> m)\<rparr>)
       (setdefault_append mapsets (beatmapset_id m) m)"

text \<open>The second loop, over \<^verbatim>\<open>mapsets.values()\<close>.\<close>

fun create_songs :: "Difficulty list list \<Rightarrow> Songs \<Rightarrow> Songs" where
  "create_songs [] sgs = sgs"
| "create_songs (mapset # rest) sgs =
     create_songs rest (add_song sgs \<lparr>difficulties = mapset\<rparr>)"

text \<open>Both loops, starting from \<^verbatim>\<open>songs = Songs()\<close> and \<^verbatim>\<open>mapsets = {}\<close>.\<close>

definition assemble :: "Difficulty list \<Rightarrow> Songs" where
  "assemble beatmaps =
     (let (sgs, mapsets) = group_beatmaps beatmaps Songs_init []
      in create_songs (map snd mapsets) sgs)"

text \<open>
  \<^verbatim>\<open>load_db\<close>, from the content of the file at \<open>path\<close>. The header values are read and,
  apart from \<open>num_maps\<close>, only logged.
\<close>

definition load_db :: "stream \<Rightarrow> error + Songs" where
  "load_db f =
     bind (read_type ''Int'' f) (\<lambda>(version, f).
     bind (read_type ''Int'' f) (\<lambda>(num_folders, f).
     bind (read_type ''Boolean'' f) (\<lambda>(unlocked, f).
     bind (read_type ''DateTime'' f) (\<lambda>(unlock_time, f).
     bind (read_type ''String'' f) (\<lambda>(player_name, f).
     bind (read_type ''Int'' f) (\<lambda>(num_maps, f).
     bind (parse_beatmaps (nat (the_int num_maps)) f) (\<lambda>(beatmaps, f).
     Inr (assemble beatmaps))))))))"

section \<open>The kinds of \<^verbatim>\<open>read_type\<close>\<close>

text \<open>The kinds that \<^verbatim>\<open>read_type\<close> has a branch (and an overload) for.\<close>

definition known_types :: "string list" where
  "known_types = [''Int'', ''String'', ''Byte'', ''Short'', ''Long'', ''Single'', ''Double'',
     ''Boolean'', ''IntDoublepair'', ''Timingpoint'', ''DateTime'']"

section \<open>Notions used to state the properties\<close>

text \<open>
  The Timingpoint entry number \<open>i\<close> (from 0) of a stream of entries of 17 bytes: the
  Double made of the first 8 bytes of the entry, the Double made of the next 8 bytes, and
  the Boolean of the last byte.
\<close>

definition timingpoint_at :: "stream \<Rightarrow> nat \<Rightarrow> pyval" where
  "timingpoint_at f i =
     PTiming (word_of_int (from_bytes_little (take 8 (drop (17 * i) f))),
              word_of_int (from_bytes_little (take 8 (drop (17 * i + 8) f))),
              take 1 (drop (17 * i + 16) f) \<noteq> [0x00])"

text \<open>The beatmaps that can be reached from the list of songs, in order.\<close>

definition reachable :: "Songs \<Rightarrow> Difficulty list" where
  "reachable sgs = concat (map difficulties (songs sgs))"

text \<open>
  The list \<open>beatmaps\<close> of \<^verbatim>\<open>load_db\<close>: the six reads of the header and the comprehension
  over \<^verbatim>\<open>range(num_maps)\<close>, that is \<^verbatim>\<open>load_db\<close> up to the point where the assembly
  starts. It is the sequence of the decoded beatmaps, in the order of the file.
\<close>

definition load_db_beatmaps :: "stream \<Rightarrow> error + Difficulty list" where
  "load_db_beatmaps f =
     bind (read_type ''Int'' f) (\<lambda>(version, f).
     bind (read_type ''Int'' f) (\<lambda>(num_folders, f).
     bind (read_type ''Boolean'' f) (\<lambda>(unlocked, f).
     bind (read_type ''DateTime'' f) (\<lambda>(unlock_time, f).
     bind (read_type ''String'' f) (\<lambda>(player_name, f).
     bind (read_type ''Int'' f) (\<lambda>(num_maps, f).
     bind (parse_beatmaps (nat (the_int num_maps)) f) (\<lambda>(beatmaps, f).
     Inr beatmaps)))))))"

section \<open>Sample files\<close>

text \<open>
  The header of a database file: version, folder count 0, unlocked, unlock time 0, the
  player name \<^verbatim>\<open>p\<close> and the number of beatmaps.
\<close>

definition sample_header :: "byte list \<Rightarrow> byte \<Rightarrow> byte list" where
  "sample_header version num_maps =
     version @ [0, 0, 0, 0] @ [1] @ replicate 8 0 @ [0x0B, 0x01, 0x70] @ [num_maps, 0, 0, 0]"

text \<open>A timing point: 500.0 milliseconds per beat, offset 0.0, uninherited.\<close>

definition sample_timingpoint :: "byte list" where
  "sample_timingpoint = [0, 0, 0, 0, 0, 0x40, 0x7F, 0x40] @ replicate 8 0 @ [1]"

text \<open>
  The fields of a beatmap from the four grades to the five Boolean flags: grades 0,
  local offset 0, stack leniency 1.0, mode 0, empty source and tags, online offset 0,
  empty font, unplayed, never played, not osz2, empty folder, never checked, no flag set.
\<close>

definition sample_flags :: "byte list" where
  "sample_flags =
     replicate 4 0 @ [0, 0] @ [0, 0, 0x80, 0x3F] @ [0] @ [0] @ [0] @ [0, 0] @ [0] @ [1]
     @ replicate 8 0 @ [0] @ [0] @ replicate 8 0 @ replicate 5 0"

text \<open>
  A beatmap in the layout of the format for versions from 20140609 on, in the field order
  of the format: artist of one letter \<open>c\<close> and eight empty strings, ranked status 4, the
  three counts 1, 2 and 3 as Shorts, last modification time 7 as a Long, the four
  difficulty values 9.0, 4.0, 6.0 and 8.0 as Singles, slider velocity 1.4, four empty star
  rating tables, the times 90, 95000 and 30000, one timing point, the identifiers \<open>bid\<close>
  and \<open>sid\<close>, thread 0, the fields of \<open>sample_flags\<close>, the unknown Int and the scroll speed.
\<close>

definition sample_beatmap :: "byte \<Rightarrow> byte \<Rightarrow> byte \<Rightarrow> byte list" where
  "sample_beatmap c bid sid =
     [0x0B, 0x01, c] @ replicate 8 0 @ [0x04] @ [1, 0, 2, 0, 3, 0] @ [7, 0, 0, 0, 0, 0, 0, 0]
     @ [0, 0, 0x10, 0x41, 0, 0, 0x80, 0x40, 0, 0, 0xC0, 0x40, 0, 0, 0, 0x41]
     @ [0x66, 0x66, 0x66, 0x66, 0x66, 0x66, 0xF6, 0x3F]
     @ replicate 16 0
     @ [90, 0, 0, 0] @ [0x18, 0x73, 0x01, 0] @ [0x30, 0x75, 0, 0]
     @ [1, 0, 0, 0] @ sample_timingpoint
     @ [bid, 0, 0, 0] @ [sid, 0, 0, 0] @ [0, 0, 0, 0]
     @ sample_flags @ [0, 0, 0, 0] @ [0]"

text \<open>The record that \<^verbatim>\<open>parse_beatmap\<close> builds from \<open>sample_beatmap\<close>.\<close>

definition sample_difficulty :: "nat \<Rightarrow> int \<Rightarrow> int \<Rightarrow> Difficulty" where
  "sample_difficulty c bid sid =
     \<lparr>path = [], name = [], artist = [c], mapper = [], difficulty = [],
      ar = 0x41100000, cs = 0x40800000, hp = 0x40C00000, od = 0x41000000,
      hash = [], api_beatmap_id = bid, beatmap_id = bid, beatmapset_id = sid,
      timing = [(0x407F400000000000, 0, True)]\<rparr>"

text \<open>
  The same beatmap in the layout for versions below 20140609: the four difficulty values
  9, 4, 6 and 8 as Bytes, and one more Short before the unknown Int. \<open>legacy_db\<close> is a
  file of version 20140608 with this one beatmap.
\<close>

definition legacy_beatmap :: "byte list" where
  "legacy_beatmap =
     [0x0B, 0x01, 0x61] @ replicate 8 0 @ [0x04] @ [1, 0, 2, 0, 3, 0] @ [7, 0, 0, 0, 0, 0, 0, 0]
     @ [9, 4, 6, 8]
     @ [0x66, 0x66, 0x66, 0x66, 0x66, 0x66, 0xF6, 0x3F]
     @ replicate 16 0
     @ [90, 0, 0, 0] @ [0x18, 0x73, 0x01, 0] @ [0x30, 0x75, 0, 0]
     @ [1, 0, 0, 0] @ sample_timingpoint
     @ [42, 0, 0, 0] @ [7, 0, 0, 0] @ [0, 0, 0, 0]
     @ sample_flags @ [0, 0] @ [0, 0, 0, 0] @ [0]"

definition legacy_db :: "byte list" where
  "legacy_db = sample_header [0x40, 0x52, 0x33, 0x01] 1 @ legacy_beatmap"

text \<open>
  A file of version 20150203 with two beatmaps that carry the same identifier 42 and
  differ in the artist.
\<close>

definition duplicate_db :: "byte list" where
  "duplicate_db =
     sample_header [0xBB, 0x77, 0x33, 0x01] 2 @ sample_beatmap 0x61 42 7 @ sample_beatmap 0x62 42 7"

text \<open>
  A timing point count of 2, two timing points (500.0, 0.0, uninherited) and
  (300.0, 1000.0, inherited), and one more byte.
\<close>

definition two_timingpoints :: "byte list" where
  "two_timingpoints =
     [2, 0, 0, 0] @ sample_timingpoint
     @ [0, 0, 0, 0, 0, 0xC0, 0x72, 0x40] @ [0, 0, 0, 0, 0, 0x40, 0x8F, 0x40] @ [0]
     @ [0xAA]"

section \<open>Reads of a small count\<close>

lemma read_small: "int n < 0x8000000000000000 \<Longrightarrow> read n f = Inr (take n f, drop n f)"
  by (simp add: read_def)

lemma read_large: "0x8000000000000000 \<le> int n \<Longrightarrow> read n f = Inl OverflowError"
  by (simp add: read_def)

lemma read_1: "read 1 f = Inr (take 1 f, drop 1 f)"
  by (simp add: read_def)

lemma read_Suc_0: "read (Suc 0) f = Inr (take (Suc 0) f, drop (Suc 0) f)"
  by (simp add: read_def)

lemma read_2: "read 2 f = Inr (take 2 f, drop 2 f)"
  by (simp add: read_def)

lemma read_4: "read 4 f = Inr (take 4 f, drop 4 f)"
  by (simp add: read_def)

lemma read_8: "read 8 f = Inr (take 8 f, drop 8 f)"
  by (simp add: read_def)

lemmas read_width = read_1 read_Suc_0 read_2 read_4 read_8

section \<open>ULEB128: encoding then decoding\<close>

lemma mask_127: "(127::int) = mask 7"
  by (simp add: mask_eq_exp_minus_1)

lemma bit_128: "bit (128::int) n = (n = 7)"
  using bit_exp_iff [of 7 n, where ?'a = int] by auto

lemma low_high_split: "(n AND 127) OR push_bit 7 (drop_bit 7 n) = (n::int)"
proof (rule bit_eqI)
  fix k :: nat
  have "\<not> k < 7 \<Longrightarrow> 7 + (k - 7) = k" by arith
  then show "bit (n AND 127 OR push_bit 7 (drop_bit 7 n)) k = bit n k"
    unfolding mask_127 by (cases "k < 7") (auto simp: bit_simps)
qed

lemma last_byte_low: "uint (word_of_int (n AND 127) :: byte) AND 127 = n AND 127"
  unfolding mask_127 by (rule bit_eqI) (auto simp: bit_simps)

lemma cont_byte_low: "uint (word_of_int (n AND 127 OR 128) :: byte) AND 127 = n AND 127"
  unfolding mask_127 by (rule bit_eqI) (auto simp: bit_simps bit_128)

lemma cont_byte_flag: "drop_bit 7 (uint (word_of_int (n AND 127 OR 128) :: byte) AND 128) = 1"
  unfolding mask_127 by (rule bit_eqI) (auto simp: bit_simps bit_128)

lemma last_byte_flag: "drop_bit 7 (uint (word_of_int (n AND 127) :: byte) AND 128) = 0"
  unfolding mask_127 by (rule bit_eqI) (auto simp: bit_simps bit_128)

lemma parse_last_byte:
  "parse_uleb128_loop r s (word_of_int (n AND 127) # rest) = Inr (r OR push_bit s (n AND 127), rest)"
  unfolding parse_uleb128_loop.simps Let_def last_byte_low last_byte_flag
  by (rule if_P) (rule refl)

lemma parse_cont_byte:
  "parse_uleb128_loop r s (word_of_int (n AND 127 OR 128) # rest)
     = parse_uleb128_loop (r OR push_bit s (n AND 127)) (s + 7) rest"
  unfolding parse_uleb128_loop.simps Let_def cont_byte_low cont_byte_flag
  by (rule if_not_P) simp

lemma drop_bit_7_less: "0 < (n::int) \<Longrightarrow> drop_bit 7 n < n"
  by (simp add: drop_bit_eq_div)

lemma drop_bit_7_nonneg: "0 \<le> (n::int) \<Longrightarrow> 0 \<le> drop_bit 7 n"
  by (simp add: drop_bit_eq_div)

lemma drop_bit_7_zero: "drop_bit 7 (n::int) = 0 \<Longrightarrow> n AND 127 = n"
  using low_high_split [of n] by simp

text \<open>
  The encoder loop returns on every non-negative integer, and the decoder loop, started
  with any accumulator \<open>r\<close> and shift \<open>s\<close> on the bytes written, stops exactly at their
  end with \<open>n\<close> placed at bit \<open>s\<close>.
\<close>

lemma uleb128_loops:
  "0 \<le> n \<Longrightarrow> \<exists>bs. get_uleb128_loop n acc = Some (acc @ bs) \<and>
     (\<forall>r s rest. parse_uleb128_loop r s (bs @ rest) = Inr (r OR push_bit s n, rest))"
proof (induction "nat n" arbitrary: n acc rule: less_induct)
  case less
  show ?case
  proof (cases "drop_bit 7 n = 0")
    case True
    have "get_uleb128_loop n acc = Some (acc @ [word_of_int (n AND 127)])"
      by (subst get_uleb128_loop.simps) (simp add: True)
    moreover have "parse_uleb128_loop r s ([word_of_int (n AND 127)] @ rest)
                     = Inr (r OR push_bit s n, rest)" for r s rest
      using drop_bit_7_zero [OF True] parse_last_byte [of r s n rest] by simp
    ultimately show ?thesis by blast
  next
    case False
    let ?m = "drop_bit 7 n"
    let ?b = "word_of_int (n AND 127 OR 128) :: byte"
    have pos: "0 < n" using False less.prems by (cases "n = 0") auto
    have "nat ?m < nat n" "0 \<le> ?m"
      using drop_bit_7_less [OF pos] drop_bit_7_nonneg [OF less.prems] pos by auto
    from less.hyps [OF this, of "acc @ [?b]"]
    obtain bs where bs: "get_uleb128_loop ?m (acc @ [?b]) = Some ((acc @ [?b]) @ bs)"
      and p: "\<And>r s rest. parse_uleb128_loop r s (bs @ rest) = Inr (r OR push_bit s ?m, rest)"
      by auto
    have "get_uleb128_loop n acc = Some (acc @ (?b # bs))"
      by (subst get_uleb128_loop.simps) (simp add: False bs)
    moreover have "parse_uleb128_loop r s ((?b # bs) @ rest) = Inr (r OR push_bit s n, rest)"
      for r s rest
    proof -
      have sh: "push_bit (s + 7) ?m = push_bit s (push_bit 7 ?m)"
        by (simp add: push_bit_push_bit add.commute)
      have "(r OR push_bit s (n AND 127)) OR push_bit (s + 7) ?m
            = r OR push_bit s ((n AND 127) OR push_bit 7 ?m)"
        by (simp only: sh or.assoc push_bit_or)
      then have e: "(r OR push_bit s (n AND 127)) OR push_bit (s + 7) ?m = r OR push_bit s n"
        by (simp only: low_high_split)
      have "parse_uleb128_loop r s ((?b # bs) @ rest)
            = parse_uleb128_loop (r OR push_bit s (n AND 127)) (s + 7) (bs @ rest)"
        unfolding append_Cons by (rule parse_cont_byte)
      also have "\<dots> = Inr ((r OR push_bit s (n AND 127)) OR push_bit (s + 7) ?m, rest)"
        by (rule p)
      finally show ?thesis by (simp only: e)
    qed
    ultimately show ?thesis by blast
  qed
qed

text \<open>
  C7. For every non-negative integer \<open>n\<close> (0 included), the ULEB128 encoder returns a
  byte sequence, and decoding that sequence yields \<open>n\<close> again, with every byte consumed.
\<close>

theorem uleb128_roundtrip:
  "0 \<le> n \<Longrightarrow> \<exists>bs. get_uleb128 n = Some bs \<and> parse_uleb128 bs = Inr (n, [])"
proof -
  assume "0 \<le> n"
  from uleb128_loops [OF this, of "[]"] obtain bs where g: "get_uleb128_loop n [] = Some bs"
    and p: "\<And>r s rest. parse_uleb128_loop r s (bs @ rest) = Inr (r OR push_bit s n, rest)"
    by auto
  from p [of 0 0 "[]"] have "parse_uleb128_loop 0 0 bs = Inr (n, [])" by simp
  with g show ?thesis by (simp add: get_uleb128_def parse_uleb128_def)
qed

theorem uleb128_roundtrip_witness:
  "(0::int) \<le> 300 \<and> (\<exists>bs. get_uleb128 300 = Some bs \<and> parse_uleb128 bs = Inr (300, []))"
  using uleb128_roundtrip [of 300] by simp

section \<open>Reads at the end of the stream\<close>


















lemma parse_uleb128_loop_nonneg:
  "parse_uleb128_loop r s f = Inr (n, f') \<Longrightarrow> 0 \<le> r \<Longrightarrow> 0 \<le> n"
proof (induction f arbitrary: r s)
  case Nil
  then show ?case by simp
next
  case (Cons b f)
  have "0 \<le> r OR push_bit s (uint b AND 0x7F)"
    using Cons.prems(2) by simp
  with Cons show ?case
    by (auto simp: Let_def split: if_splits)
qed

lemma parse_uleb128_nonneg: "parse_uleb128 f = Inr (n, f') \<Longrightarrow> 0 \<le> n"
  using parse_uleb128_loop_nonneg [of 0 0 f n f'] by (simp add: parse_uleb128_def)




lemma parse_string_payload:
  assumes "parse_uleb128 f = Inr (n, f')"
  shows "parse_string (0x0B # f)
       = (if 0x8000000000000000 \<le> n then Inl OverflowError
          else bind (utf8_decode (take (nat n) f')) (\<lambda>s. Inr (s, drop (nat n) f')))"
proof -
  have n: "int (nat n) = n"
    using parse_uleb128_nonneg [OF assms] by simp
  have "read (nat n) f'
       = (if 0x8000000000000000 \<le> n then Inl OverflowError
          else Inr (take (nat n) f', drop (nat n) f'))"
    unfolding read_def n by (rule refl)
  then show ?thesis
    by (simp add: parse_string_def read_width bind_def assms)
qed







section \<open>A kind that \<^verbatim>\<open>read_type\<close> does not know\<close>

text \<open>
  C5, as stated, fails: asked for the kind \<^verbatim>\<open>Float\<close>, \<^verbatim>\<open>read_type\<close> raises nothing; it
  returns None and the cursor has not moved.
\<close>

theorem read_type_unknown_counterexample:
  "read_type ''Float'' [1, 2, 3] = Inr (PNone, [1, 2, 3])"
  by (simp add: read_type_def)

text \<open>
  C5, amended. For every kind outside the known ones, \<^verbatim>\<open>read_type\<close> returns None
  without raising, and leaves the cursor where it was.
\<close>

theorem read_type_unknown:
  "type \<notin> set known_types \<Longrightarrow> read_type type f = Inr (PNone, f)"
  by (simp add: read_type_def known_types_def)

theorem read_type_unknown_witness:
  "''Float'' \<notin> set known_types \<and> read_type ''Float'' [7, 8] = Inr (PNone, [7, 8])"
  using read_type_unknown [of "''Float''" "[7, 8]"] by (simp add: known_types_def)

section \<open>Strings\<close>




text \<open>
  C3 does not hold of the code. \<^verbatim>\<open>get_string\<close> writes \<^verbatim>\<open>len(string)\<close>, the number of
  code points, where \<^verbatim>\<open>parse_string\<close> expects the number of payload bytes. For the
  one-character string U+00E9 the length byte is 1 although the payload has 2 bytes, and
  decoding fails; for the string U+00E9 U+0061 decoding returns only the first
  character and leaves a byte of the payload unread.
\<close>

theorem get_string_non_ascii:
  "get_string [0xE9] = Some (Inr [0x0B, 0x01, 0xC3, 0xA9]) \<and>
   parse_string [0x0B, 0x01, 0xC3, 0xA9] = Inl UnicodeDecodeError \<and>
   get_string [0xE9, 0x61] = Some (Inr [0x0B, 0x02, 0xC3, 0xA9, 0x61]) \<and>
   parse_string [0x0B, 0x02, 0xC3, 0xA9, 0x61] = Inr ([0xE9], [0x61])"
  by code_simp

text \<open>
  For a string of ASCII characters (of a length below \<open>2 ^ 63\<close>) the number of code
  points is the number of payload bytes, and there encoding then decoding gives the
  string back, with every byte read.
\<close>

lemma utf8_encode_ascii:
  "\<forall>c \<in> set s. c < 0x80 \<Longrightarrow> utf8_encode s = Inr (map of_nat s)"
  by (induction s) (simp_all add: utf8_encode_cp_def bind_def)

lemma unat_ascii: "c < 0x80 \<Longrightarrow> unat (of_nat c :: byte) = c"
  by (simp add: unat_of_nat)

lemma utf8_decode_ascii:
  "\<forall>c \<in> set s. c < 0x80 \<Longrightarrow> utf8_decode (map of_nat s) = Inr s"
  by (induction s) (simp_all add: bind_def unat_ascii Let_def)

lemma get_string_ascii_roundtrip:
  assumes "\<forall>c \<in> set s. c < 0x80" and len: "int (length s) < 0x8000000000000000"
  shows "\<exists>bs. get_string s = Some (Inr bs) \<and> parse_string bs = Inr (s, [])"
proof (cases "s = []")
  case True
  then show ?thesis by (simp add: get_string_def parse_string_def read_width bind_def)
next
  case False
  let ?p = "map of_nat s :: byte list"
  from uleb128_loops [of "int (length s)" "[]"]
  obtain u where g: "get_uleb128 (int (length s)) = Some u"
    and p: "\<And>r sh rest. parse_uleb128_loop r sh (u @ rest)
               = Inr (r OR push_bit sh (int (length s)), rest)"
    by (auto simp: get_uleb128_def)
  from p [of 0 0 ?p] have pu: "parse_uleb128 (u @ ?p) = Inr (int (length s), ?p)"
    by (simp add: parse_uleb128_def)
  have "get_string s = Some (Inr (0x0B # u @ ?p))"
    by (simp add: get_string_def False g utf8_encode_ascii [OF assms(1)] bind_def)
  moreover have "parse_string (0x0B # u @ ?p) = Inr (s, [])"
    using parse_string_payload [OF pu] len by (simp add: utf8_decode_ascii [OF assms(1)] bind_def)
  ultimately show ?thesis by blast
qed

section \<open>The reads of \<^verbatim>\<open>parse_beatmap\<close>\<close>


text \<open>
  C4 does not hold of the code. In a record that has the three counts 1, 2 and 3 as
  Shorts right after the ranked status and then the last modification time 7 as a Long,
  \<^verbatim>\<open>parse_beatmap\<close> reads the Long first: \<open>last_modified\<close> is made of the 6 bytes of the
  counts and the first 2 bytes of the time, and the three counts are made of the last
  6 bytes of the time.
\<close>

theorem parse_beatmap_reads_Long_before_Shorts:
  "parse_beatmap_trivial
     (replicate 9 0x00 @ [0x04] @ [1, 0, 2, 0, 3, 0] @ [7, 0, 0, 0, 0, 0, 0, 0] @ [0xAA, 0xBB])
   = Inr ((PStr [], PStr [], PStr [], PStr [], PStr [], PStr [], PStr [], PStr [], PStr [],
           PBytes [0x04], PInt 1970337722007553, PInt 0, PInt 0, PInt 0), [0xAA, 0xBB])"
  by code_simp

text \<open>
  C2 does not hold of the code. \<open>legacy_db\<close> has the version 20140608 and one beatmap in
  the layout for versions below 20140609. \<^verbatim>\<open>load_db\<close> reads the version and never uses
  it: the four difficulty values are read as Singles, from the four Bytes 9, 4, 6, 8
  (which become \<open>ar\<close>), the slider velocity and the first star rating count; the reads
  that follow are out of step, and the decoding of the beatmap and of the file ends in
  \<^verbatim>\<open>struct.error\<close>.
\<close>

theorem load_db_ignores_version:
  "read_type ''Int'' legacy_db = Inr (PInt 20140608, drop 4 legacy_db) \<and>
   parse_beatmap_diff (drop 26 legacy_beatmap)
     = Inr ((PSingle 0x08060409, PSingle 0x66666666, PSingle 0x3FF66666, PSingle 0, PDouble 0),
            drop 50 legacy_beatmap) \<and>
   parse_beatmap legacy_beatmap = Inl StructError \<and>
   isl (load_db legacy_db) \<and> projl (load_db legacy_db) = StructError"
  by code_simp

section \<open>Timing points\<close>

lemma read_Timingpoint:
  "17 \<le> length f \<Longrightarrow> read_type ''Timingpoint'' f = Inr (timingpoint_at f 0, drop 17 f)"
  by (simp add: read_type_def read_width OSU_defs bind_def unpack_d_def timingpoint_at_def)

lemma read_Timingpoints:
  "17 * k \<le> length f \<Longrightarrow>
   read_each (replicate k ''Timingpoint'') f = Inr (map (timingpoint_at f) [0..<k], drop (17 * k) f)"
proof (induction k arbitrary: f)
  case 0
  then show ?case by simp
next
  case (Suc k)
  then have l: "17 \<le> length f" "17 * k \<le> length (drop 17 f)" by simp_all
  have m: "map (timingpoint_at (drop 17 f)) [0..<k] = map (timingpoint_at f) [Suc 0..<Suc k]"
    unfolding map_Suc_upt [symmetric]
    by (simp add: timingpoint_at_def add.commute add.left_commute)
  have h: "timingpoint_at f 0 # map (timingpoint_at f) [Suc 0..<Suc k]
             = map (timingpoint_at f) [0..<Suc k]"
    by (simp add: upt_rec [of 0 "Suc k"] del: upt_Suc)
  have "read_each (replicate (Suc k) ''Timingpoint'') f
      = Inr (timingpoint_at f 0 # map (timingpoint_at (drop 17 f)) [0..<k],
             drop (17 * k) (drop 17 f))"
    by (simp add: read_Timingpoint [OF l(1)] Suc.IH [OF l(2)] bind_def)
  then show ?case unfolding m h by (simp add: add.commute)
qed

text \<open>
  C9, as stated, fails: with a count of 2 the decoder takes 2 entries, which are 34
  bytes and not 16 * 2 + 1 = 33 (38 bytes with the count). The cursor is right after
  the second entry.
\<close>

theorem timingpoints_bytes_counterexample:
  "parse_beatmap_timingpoints two_timingpoints
     = Inr ([PTiming (0x407F400000000000, 0, True),
             PTiming (0x4072C00000000000, 0x408F400000000000, False)], [0xAA]) \<and>
   length two_timingpoints - length [0xAA :: byte] = 4 + 34 \<and>
   (34 :: nat) \<noteq> 16 * 2 + 1"
  by code_simp

text \<open>
  C9, amended. When the timing point count holds \<open>k\<close> and at least \<open>17 * k\<close> bytes follow
  it, the decoder takes exactly \<open>k\<close> Timingpoint entries, \<open>17 * k\<close> bytes in all (8 + 8 + 1
  for each entry), and leaves the cursor right after the last entry. Entry \<open>i\<close> is the
  Double, the Double and the Boolean found at the bytes \<open>17 * i\<close>, \<open>17 * i + 8\<close> and
  \<open>17 * i + 16\<close> after the count.
\<close>

theorem timingpoints_consumed:
  "read_type ''Int'' f = Inr (PInt k, f1) \<Longrightarrow> 17 * nat k \<le> length f1 \<Longrightarrow>
   parse_beatmap_timingpoints f
     = Inr (map (timingpoint_at f1) [0..<nat k], drop (17 * nat k) f1) \<and>
   length (map (timingpoint_at f1) [0..<nat k]) = nat k \<and>
   length (drop (17 * nat k) f1) = length f1 - 17 * nat k"
  by (simp add: parse_beatmap_timingpoints_def bind_def read_Timingpoints)

theorem timingpoints_consumed_witness:
  "read_type ''Int'' two_timingpoints = Inr (PInt 2, drop 4 two_timingpoints) \<and>
   17 * nat 2 \<le> length (drop 4 two_timingpoints) \<and>
   parse_beatmap_timingpoints two_timingpoints
     = Inr (map (timingpoint_at (drop 4 two_timingpoints)) [0..<nat 2],
            drop (17 * nat 2) (drop 4 two_timingpoints)) \<and>
   drop (17 * nat 2) (drop 4 two_timingpoints) = [0xAA]"
proof -
  have r: "read_type ''Int'' two_timingpoints = Inr (PInt 2, drop 4 two_timingpoints)"
    by code_simp
  have l: "17 * nat 2 \<le> length (drop 4 two_timingpoints)"
    by code_simp
  have d: "drop (17 * nat 2) (drop 4 two_timingpoints) = [0xAA]"
    by code_simp
  from timingpoints_consumed [OF r l] r l d show ?thesis by simp
qed

section \<open>The two identifiers of a decoded beatmap\<close>



section \<open>The index of beatmaps by identifier\<close>

lemma setdefault_append_mset:
  "mset (concat (map snd (setdefault_append mapsets k m)))
     = mset (concat (map snd mapsets)) + {#m#}"
  by (induction mapsets k m rule: setdefault_append.induct) auto

lemma last_filter_Cons:
  "(case filter P (m # ms) of [] \<Rightarrow> d | x # xs \<Rightarrow> Some (last (x # xs)))
     = (case filter P ms of [] \<Rightarrow> (if P m then Some m else d) | x # xs \<Rightarrow> Some (last (x # xs)))"
  by (cases "filter P ms") auto

lemma group_beatmaps_result:
  "group_beatmaps beatmaps sgs mapsets = (sgs', mapsets') \<Longrightarrow>
     songs sgs' = songs sgs \<and>
     mset (concat (map snd mapsets')) = mset (concat (map snd mapsets)) + mset beatmaps \<and>
     bid_mapping sgs' k =
       (case filter (\<lambda>m. beatmap_id m = k) beatmaps of
          [] \<Rightarrow> bid_mapping sgs k
        | x # xs \<Rightarrow> Some (last (x # xs)))"
proof (induction beatmaps arbitrary: sgs mapsets)
  case Nil
  then show ?case by simp
next
  case (Cons m beatmaps)
  let ?sgs = "sgs\<lparr>bid_mapping := (bid_mapping sgs)(beatmap_id m \<mapsto> m)\<rparr>"
  let ?mapsets = "setdefault_append mapsets (beatmapset_id m) m"
  from Cons.prems have "group_beatmaps beatmaps ?sgs ?mapsets = (sgs', mapsets')" by simp
  from Cons.IH [OF this]
  have s: "songs sgs' = songs ?sgs"
    and r: "mset (concat (map snd mapsets')) = mset (concat (map snd ?mapsets)) + mset beatmaps"
    and b: "bid_mapping sgs' k =
       (case filter (\<lambda>m. beatmap_id m = k) beatmaps of
          [] \<Rightarrow> bid_mapping ?sgs k
        | x # xs \<Rightarrow> Some (last (x # xs)))"
    by simp_all
  have "bid_mapping ?sgs k = (if beatmap_id m = k then Some m else bid_mapping sgs k)"
    by simp
  with b have "bid_mapping sgs' k =
       (case filter (\<lambda>m. beatmap_id m = k) (m # beatmaps) of
          [] \<Rightarrow> bid_mapping sgs k
        | x # xs \<Rightarrow> Some (last (x # xs)))"
    by (simp only: last_filter_Cons)
  with s r show ?case by (simp add: setdefault_append_mset)
qed

lemma create_songs_result:
  "songs (create_songs mapsets sgs) = songs sgs @ map (\<lambda>mapset. \<lparr>difficulties = mapset\<rparr>) mapsets \<and>
   bid_mapping (create_songs mapsets sgs) = bid_mapping sgs"
  by (induction mapsets arbitrary: sgs) (simp_all add: add_song_def)

lemma assemble_result:
  "mset (reachable (assemble beatmaps)) = mset beatmaps \<and>
   bid_mapping (assemble beatmaps) k =
     (case filter (\<lambda>m. beatmap_id m = k) beatmaps of
        [] \<Rightarrow> None
      | x # xs \<Rightarrow> Some (last (x # xs)))"
proof -
  obtain sgs mapsets where g: "group_beatmaps beatmaps Songs_init [] = (sgs, mapsets)"
    by (cases "group_beatmaps beatmaps Songs_init []")
  have i: "songs Songs_init = []" "bid_mapping Songs_init k = None"
    by (simp_all add: Songs_init_def)
  from group_beatmaps_result [OF g, of k]
  have s: "songs sgs = []"
    and r: "mset (concat (map snd mapsets)) = mset beatmaps"
    and b: "bid_mapping sgs k =
       (case filter (\<lambda>m. beatmap_id m = k) beatmaps of
          [] \<Rightarrow> None
        | x # xs \<Rightarrow> Some (last (x # xs)))"
    unfolding i by simp_all
  have a: "assemble beatmaps = create_songs (map snd mapsets) sgs"
    by (simp add: assemble_def g)
  have "reachable (assemble beatmaps) = concat (map snd mapsets)"
    unfolding a reachable_def using create_songs_result [of "map snd mapsets" sgs]
    by (simp add: s comp_def)
  with r b a create_songs_result [of "map snd mapsets" sgs] show ?thesis by simp
qed

lemma bind_assoc: "bind (bind m k) h = bind m (\<lambda>x. bind (k x) h)"
  by (cases m) (simp_all add: bind_def)

lemma bind_Inr: "bind (Inr x) k = k x"
  by (simp add: bind_def)

lemma load_db_split:
  "load_db f = bind (load_db_beatmaps f) (\<lambda>beatmaps. Inr (assemble beatmaps))"
  unfolding load_db_def load_db_beatmaps_def split_def
  by (simp add: bind_assoc bind_Inr)

lemma load_db_beatmaps:
  "load_db f = Inr sgs \<Longrightarrow>
   \<exists>beatmaps. load_db_beatmaps f = Inr beatmaps \<and> sgs = assemble beatmaps"
  unfolding load_db_split by (cases "load_db_beatmaps f") (auto simp: bind_def)

text \<open>
  C8, as stated, fails. \<open>duplicate_db\<close> holds two beatmaps with the identifier 42. After
  decoding, both can be reached from the one song, and the index maps 42 to the second
  one: the first one is not in the index under its own identifier.
\<close>

theorem index_duplicate_counterexample:
  "\<not> isl (load_db duplicate_db) \<and>
   reachable (projr (load_db duplicate_db))
     = [sample_difficulty 0x61 42 7, sample_difficulty 0x62 42 7] \<and>
   beatmap_id (sample_difficulty 0x61 42 7) = 42 \<and>
   bid_mapping (projr (load_db duplicate_db)) 42 = Some (sample_difficulty 0x62 42 7) \<and>
   sample_difficulty 0x61 42 7 \<noteq> sample_difficulty 0x62 42 7"
  by code_simp

text \<open>
  C8, amended. Whenever \<^verbatim>\<open>load_db\<close> succeeds on a file, the sequence of the beatmaps
  decoded from that file (the header reads and the \<open>num_maps\<close> calls of
  \<^verbatim>\<open>parse_beatmap\<close>, in the order of the file) exists, and
  \<^item> the beatmaps that can be reached from the list of songs are exactly the beatmaps of
    that sequence, each as often as it occurs there;
  \<^item> the index maps every identifier to the last beatmap of that sequence that carries
    it, and to nothing when no beatmap of the sequence carries it.
\<close>

theorem index_last_write_wins:
  "load_db f = Inr sgs \<Longrightarrow>
   \<exists>beatmaps.
     load_db_beatmaps f = Inr beatmaps \<and>
     mset (reachable sgs) = mset beatmaps \<and>
     (\<forall>k. bid_mapping sgs k =
        (case filter (\<lambda>m. beatmap_id m = k) beatmaps of
           [] \<Rightarrow> None
         | x # xs \<Rightarrow> Some (last (x # xs))))"
proof -
  assume "load_db f = Inr sgs"
  from load_db_beatmaps [OF this] obtain beatmaps
    where p: "load_db_beatmaps f = Inr beatmaps" and a: "sgs = assemble beatmaps"
    by blast
  from p a assemble_result [of beatmaps] show ?thesis by blast
qed

theorem index_last_write_wins_witness:
  "\<not> isl (load_db duplicate_db) \<and>
   load_db_beatmaps duplicate_db
     = Inr [sample_difficulty 0x61 42 7, sample_difficulty 0x62 42 7] \<and>
   mset (reachable (projr (load_db duplicate_db)))
     = mset [sample_difficulty 0x61 42 7, sample_difficulty 0x62 42 7] \<and>
   (\<forall>k. bid_mapping (projr (load_db duplicate_db)) k =
      (case filter (\<lambda>m. beatmap_id m = k)
              [sample_difficulty 0x61 42 7, sample_difficulty 0x62 42 7] of
         [] \<Rightarrow> None
       | x # xs \<Rightarrow> Some (last (x # xs))))"
proof -
  have n: "\<not> isl (load_db duplicate_db)"
    by code_simp
  then have e: "load_db duplicate_db = Inr (projr (load_db duplicate_db))"
    by simp
  have b: "load_db_beatmaps duplicate_db
     = Inr [sample_difficulty 0x61 42 7, sample_difficulty 0x62 42 7]"
    by code_simp
  from index_last_write_wins [OF e] obtain beatmaps
    where p: "load_db_beatmaps duplicate_db = Inr beatmaps"
      and r: "mset (reachable (projr (load_db duplicate_db))) = mset beatmaps"
      and i: "\<And>k. bid_mapping (projr (load_db duplicate_db)) k =
        (case filter (\<lambda>m. beatmap_id m = k) beatmaps of
           [] \<Rightarrow> None
         | x # xs \<Rightarrow> Some (last (x # xs)))"
    by blast
  from p b have "beatmaps = [sample_difficulty 0x61 42 7, sample_difficulty 0x62 42 7]"
    by simp
  with n b r i show ?thesis by blast
qed

end
